theory Spec2Isabelle
  imports Main
begin

section \<open>JavaScript values, strings and arrays\<close>

text \<open>
  The bot (\<^verbatim>\<open>src/bot.js\<close>) is JavaScript. The values its functions test with \<^verbatim>\<open>!x\<close>,
  \<^verbatim>\<open>x !== true\<close> and the like are modelled by \<open>jsval\<close>; PR numbers are the integers among
  the JavaScript numbers. Strings are lists of code units below 256.
\<close>

datatype jsval = JUndefined | JNull | JBool bool | JNum int | JStr string

text \<open>The operator \<^verbatim>\<open>!x\<close> (ToBoolean, negated).\<close>

fun falsy :: "jsval \<Rightarrow> bool" where
  "falsy JUndefined = True"
| "falsy JNull = True"
| "falsy (JBool b) = (b = False)"
| "falsy (JNum n) = (n = 0)"
| "falsy (JStr s) = (s = [])"

datatype exn = Error string | TypeError string

text \<open>\<^verbatim>\<open>Array.prototype.indexOf\<close> on an array of strings: the first index, or -1.\<close>

fun indexOf :: "string list \<Rightarrow> string \<Rightarrow> int" where
  "indexOf [] x = - 1"
| "indexOf (y # ys) x =
     (if y = x then 0 else (let i = indexOf ys x in if i = - 1 then - 1 else i + 1))"

text \<open>\<^verbatim>\<open>String.prototype.slice(b, e)\<close> for indices \<open>0 \<le> b \<le> e\<close>, and \<^verbatim>\<open>trim\<close>.\<close>

definition slice :: "nat \<Rightarrow> nat \<Rightarrow> string \<Rightarrow> string" where
  "slice b e s = take (e - b) (drop b s)"

definition is_space :: "char \<Rightarrow> bool" where
  "is_space c = (c \<in> set [CHR 0x09, CHR 0x0A, CHR 0x0B, CHR 0x0C, CHR 0x0D, CHR 0x20, CHR 0xA0])"

definition trim :: "string \<Rightarrow> string" where
  "trim s = rev (dropWhile is_space (rev (dropWhile is_space s)))"

text \<open>\<^verbatim>\<open>JSON.stringify\<close> of an array of strings.\<close>

definition hex_digit :: "nat \<Rightarrow> char" where
  "hex_digit n = ''0123456789abcdef'' ! (n mod 16)"

definition json_char :: "char \<Rightarrow> string" where
  "json_char c =
     (if c = CHR 0x22 then [CHR 0x5C, CHR 0x22]
      else if c = CHR 0x5C then [CHR 0x5C, CHR 0x5C]
      else if c = CHR 0x08 then [CHR 0x5C, CHR ''b'']
      else if c = CHR 0x0C then [CHR 0x5C, CHR ''f'']
      else if c = CHR 0x0A then [CHR 0x5C, CHR ''n'']
      else if c = CHR 0x0D then [CHR 0x5C, CHR ''r'']
      else if c = CHR 0x09 then [CHR 0x5C, CHR ''t'']
      else if (of_char c :: nat) < 32
        then [CHR 0x5C, CHR ''u'', CHR ''0'', CHR ''0'',
              hex_digit ((of_char c :: nat) div 16), hex_digit (of_char c :: nat)]
      else [c])"

definition json_string :: "string \<Rightarrow> string" where
  "json_string s = [CHR 0x22] @ concat (map json_char s) @ [CHR 0x22]"

fun json_elements :: "string list \<Rightarrow> string" where
  "json_elements [] = []"
| "json_elements [x] = json_string x"
| "json_elements (x # y # ys) = json_string x @ '','' @ json_elements (y # ys)"

definition JSON_stringify :: "string list \<Rightarrow> string" where
  "JSON_stringify xs = ''['' @ json_elements xs @ '']''"

subsection \<open>The store of arrays\<close>

text \<open>
  \<open>updateLabels\<close> receives a reference to the caller's array and may replace it by a new
  one, so arrays live in a store: \<open>cells s a\<close> is the array at address \<open>a\<close>, and \<open>nxt s\<close> is
  the next address an array literal allocates. The addresses in use are those below
  \<open>nxt s\<close>.
\<close>

record store =
  cells :: "nat \<Rightarrow> string list"
  nxt :: nat

text \<open>The array literal \<^verbatim>\<open>[]\<close>.\<close>

definition alloc_empty :: "store \<Rightarrow> nat \<times> store" where
  "alloc_empty s = (nxt s, s\<lparr>cells := (cells s)(nxt s := []), nxt := Suc (nxt s)\<rparr>)"

text \<open>\<^verbatim>\<open>Array.prototype.push\<close> of one element.\<close>

definition push :: "store \<Rightarrow> nat \<Rightarrow> string \<Rightarrow> store" where
  "push s a x = s\<lparr>cells := (cells s)(a := cells s a @ [x])\<rparr>"

section \<open>Configuration, the forge client and what a call does\<close>

text \<open>
  \<^verbatim>\<open>./config\<close> is not among the sources: its fields are a parameter of every function.
  A credential that is not configured is \<open>JUndefined\<close>.
\<close>

record config =
  user :: string
  repo :: string
  botUser :: jsval
  botPassword :: jsval
  oauth2key :: jsval
  oauth2secret :: jsval
  labelNeedsReview :: string
  labelReviewed :: string
  instructionsComment :: string
  reviewsNeeded :: int

datatype auth = OAuth jsval jsval | Basic jsval jsval

text \<open>
  The requests the modelled functions send through the client, with their parameters
  (user, repo, number, and \<^verbatim>\<open>perPage\<close> or \<^verbatim>\<open>labels\<close>).
\<close>

datatype apicall =
  Issues_getComments string string jsval "int option"
| Issues_edit string string jsval string

text \<open>
  The client answers a request through the function passed with it, called with
  \<^verbatim>\<open>(error, result)\<close>: \<open>Failure e\<close> is an answer with an error, \<open>Success r\<close> one without.
\<close>

datatype 'a reply = Failure string | Success 'a

record comment =
  body :: string

datatype cbarg = Flag bool | Result string

text \<open>
  What a call does, in order: diagnostics (\<^verbatim>\<open>debug\<close>), \<^verbatim>\<open>github.authenticate\<close>, requests,
  and the invocation of the caller's continuation. \<open>raised\<close> is the exception that ended
  the call, if any.
\<close>

datatype event =
  Debug string
| DebugErr string string
| Authenticate auth
| ApiCall apicall
| Callback cbarg

record outcome =
  trace :: "event list"
  raised :: "exn option"

section \<open>The functions of \<^verbatim>\<open>src/bot.js\<close>\<close>

subsection \<open>\<^verbatim>\<open>_authenticate\<close> (lines 10-28)\<close>

definition priv_authenticate :: "config \<Rightarrow> exn + auth" where
  "priv_authenticate cfg =
     (if (falsy (botUser cfg) \<or> falsy (botPassword cfg))
         \<or> (falsy (oauth2key cfg) \<or> falsy (oauth2secret cfg))
      then Inl (Error ''Fatal: No username/password or no Oauth2 key/secret configured!'')
      else if \<not> falsy (oauth2key cfg) \<and> \<not> falsy (oauth2secret cfg)
        then Inr (OAuth (oauth2key cfg) (oauth2secret cfg))
        else Inr (Basic (botUser cfg) (botPassword cfg)))"

subsection \<open>\<^verbatim>\<open>checkForApprovalComments\<close> (lines 107-142)\<close>

text \<open>
  The pattern \<^verbatim>\<open>/(LGTM)|(Looks good to me!)|w+?/\<close>: \<open>lgtm_at s\<close> says that one of its three
  alternatives matches at the start of \<open>s\<close> (the last one, \<^verbatim>\<open>w+?\<close>, is one or more
  letters w), and \<^verbatim>\<open>test\<close> tries every start position.
\<close>

fun starts_with :: "string \<Rightarrow> string \<Rightarrow> bool" where
  "starts_with [] s = True"
| "starts_with (p # ps) [] = False"
| "starts_with (p # ps) (c # cs) = (p = c \<and> starts_with ps cs)"

definition lgtm_at :: "string \<Rightarrow> bool" where
  "lgtm_at s =
     (starts_with ''LGTM'' s \<or> starts_with ''Looks good to me!'' s \<or> starts_with ''w'' s)"

fun lgtm_test :: "string \<Rightarrow> bool" where
  "lgtm_test [] = lgtm_at []"
| "lgtm_test (c # cs) = (lgtm_at (c # cs) \<or> lgtm_test cs)"

text \<open>The loop of lines 130-134, from \<open>approvedCount\<close> on the comments left.\<close>

fun count_approvals :: "comment list \<Rightarrow> int \<Rightarrow> int" where
  "count_approvals [] approvedCount = approvedCount"
| "count_approvals (c # cs) approvedCount =
     count_approvals cs
       (if body c \<noteq> [] \<and> lgtm_test (body c) then approvedCount + 1 else approvedCount)"

definition checkForApprovalComments ::
  "config \<Rightarrow> comment list reply \<Rightarrow> jsval \<Rightarrow> bool \<Rightarrow> outcome" where
  "checkForApprovalComments cfg answer prNumber callback =
     (if falsy prNumber
      then \<lparr>trace = [Debug ''checkForApprovalComments: insufficient parameters''],
            raised = None\<rparr>
      else
        \<lparr>trace =
           ApiCall (Issues_getComments (user cfg) (repo cfg) prNumber (Some 99)) #
           (case answer of
              Failure e \<Rightarrow>
                [DebugErr
                   ''checkForApprovalComments: Error while fetching coments for single PR: '' e]
            | Success result \<Rightarrow>
                (let approved = (count_approvals result 0 \<ge> reviewsNeeded cfg)
                 in if callback then [Callback (Flag approved)] else [])),
         raised = None\<rparr>)"

subsection \<open>\<^verbatim>\<open>checkForInstructionsComment\<close> (lines 149-176)\<close>

text \<open>
  The loop of lines 165-170 on the comments left, from index \<open>i\<close>: the value of
  \<open>instructed\<close> and of \<open>i\<close> when the loop ends.
\<close>

fun scan_instructions :: "string \<Rightarrow> comment list \<Rightarrow> nat \<Rightarrow> bool \<Rightarrow> bool \<times> nat" where
  "scan_instructions template [] i instructed = (instructed, i)"
| "scan_instructions template (c # cs) i instructed =
     (let instructed' = (trim (slice 1 30 (body c)) = trim (slice 1 30 template))
      in if instructed' then (instructed', i)
         else scan_instructions template cs (Suc i) instructed')"

definition checkForInstructionsComment ::
  "config \<Rightarrow> comment list reply \<Rightarrow> jsval \<Rightarrow> bool \<Rightarrow> outcome" where
  "checkForInstructionsComment cfg answer prNumber callback =
     \<lparr>trace =
        ApiCall (Issues_getComments (user cfg) (repo cfg) prNumber None) #
        (case answer of
           Failure e \<Rightarrow>
             [DebugErr ''commentInstructions: error while trying fetch comments: '' e]
         | Success result \<Rightarrow>
             (let instructed = fst (scan_instructions (instructionsComment cfg) result 0 False)
              in if callback then [Callback (Flag instructed)] else [])),
      raised = None\<rparr>"

subsection \<open>\<^verbatim>\<open>updateLabels\<close> (lines 185-232)\<close>

text \<open>
  Line 193: \<^verbatim>\<open>labels = (!labels || !labels.length) ? [] : labels\<close>. The argument is a
  reference to the caller's array, or absent (\<open>None\<close>).
\<close>

definition normalize_labels :: "store \<Rightarrow> nat option \<Rightarrow> nat \<times> store" where
  "normalize_labels s labels =
     (case labels of
        None \<Rightarrow> alloc_empty s
      | Some a \<Rightarrow> if cells s a = [] then alloc_empty s else (a, s))"

text \<open>
  Lines 199-214, for a boolean \<open>approved\<close> and the array at \<open>a\<close>: the value of \<open>changed\<close>
  and the store when line 216 is reached. \<^verbatim>\<open>labels.removeAt\<close> is not a method of arrays,
  so calling it raises a TypeError.
\<close>

definition labelDelta :: "config \<Rightarrow> bool \<Rightarrow> nat \<Rightarrow> store \<Rightarrow> exn + (bool \<times> store)" where
  "labelDelta cfg approved a s =
     (if approved \<and> indexOf (cells s a) (labelNeedsReview cfg) > - 1
      then Inl (TypeError ''labels.removeAt is not a function'')
      else
        (let (changed, s1) =
               (if approved \<and> indexOf (cells s a) (labelReviewed cfg) = - 1
                then (True, push s a (labelReviewed cfg))
                else (False, s))
         in if \<not> approved \<and> indexOf (cells s1 a) (labelReviewed cfg) > - 1
            then Inl (TypeError ''labels.removeAt is not a function'')
            else if \<not> approved \<and> indexOf (cells s1 a) (labelNeedsReview cfg) = - 1
              then Inr (True, push s1 a (labelNeedsReview cfg))
              else Inr (changed, s1)))"

definition updateLabels ::
  "config \<Rightarrow> string reply \<Rightarrow> jsval \<Rightarrow> jsval \<Rightarrow> nat option \<Rightarrow> bool \<Rightarrow> store
     \<Rightarrow> outcome \<times> store" where
  "updateLabels cfg answer prNumber approved labels callback s =
     (let (a, s1) = normalize_labels s labels
      in if (approved \<noteq> JBool True \<and> approved \<noteq> JBool False) \<or> falsy prNumber
         then (\<lparr>trace = [Debug ''labelPullRequest: insufficient parameters''],
                raised = None\<rparr>, s1)
         else
           (case labelDelta cfg (approved = JBool True) a s1 of
              Inl e \<Rightarrow> (\<lparr>trace = [], raised = Some e\<rparr>, s1)
            | Inr (changed, s2) \<Rightarrow>
                if changed
                then
                  (case priv_authenticate cfg of
                     Inl e \<Rightarrow> (\<lparr>trace = [], raised = Some e\<rparr>, s2)
                   | Inr credentials \<Rightarrow>
                       (\<lparr>trace =
                           [Authenticate credentials,
                            ApiCall (Issues_edit (user cfg) (repo cfg) prNumber
                                       (JSON_stringify (cells s2 a)))] @
                           (case answer of
                              Failure e \<Rightarrow>
                                [DebugErr
                                   ''labelPullRequest: error while trying to label PR: '' e]
                            | Success result \<Rightarrow>
                                if callback then [Callback (Result result)] else []),
                         raised = None\<rparr>, s2))
                else (\<lparr>trace = [], raised = None\<rparr>, s2)))"

text \<open>
  The value of \<open>changed\<close> with which line 216 is reached; \<open>False\<close> when the call ends
  before that line.
\<close>

definition updateLabels_changed ::
  "config \<Rightarrow> jsval \<Rightarrow> jsval \<Rightarrow> nat option \<Rightarrow> store \<Rightarrow> bool" where
  "updateLabels_changed cfg prNumber approved labels s =
     (let (a, s1) = normalize_labels s labels
      in if (approved \<noteq> JBool True \<and> approved \<noteq> JBool False) \<or> falsy prNumber
         then False
         else
           (case labelDelta cfg (approved = JBool True) a s1 of
              Inl e \<Rightarrow> False
            | Inr (changed, s2) \<Rightarrow> changed))"

subsection \<open>\<^verbatim>\<open>merge\<close> (lines 265-283)\<close>

text \<open>
  Line 271 calls \<^verbatim>\<open>github.pullRequests\<close> itself. That member is the client's group of
  pull-request operations (line 39 calls its \<^verbatim>\<open>getAll\<close>), an object and not a function,
  so the call raises a TypeError and the function passed to it never runs.
\<close>

definition merge :: "config \<Rightarrow> jsval \<Rightarrow> bool \<Rightarrow> outcome" where
  "merge cfg prNumber callback =
     (case priv_authenticate cfg of
        Inl e \<Rightarrow> \<lparr>trace = [], raised = Some e\<rparr>
      | Inr credentials \<Rightarrow>
          \<lparr>trace = [Authenticate credentials],
           raised = Some (TypeError ''github.pullRequests is not a function'')\<rparr>)"

section \<open>Observations on an outcome, and example inputs\<close>

fun is_ApiCall :: "event \<Rightarrow> bool" where
  "is_ApiCall (ApiCall c) = True"
| "is_ApiCall ev = False"

fun is_Callback :: "event \<Rightarrow> bool" where
  "is_Callback (Callback v) = True"
| "is_Callback ev = False"

fun is_edit :: "event \<Rightarrow> bool" where
  "is_edit (ApiCall (Issues_edit u r n ls)) = True"
| "is_edit ev = False"

text \<open>A request \<^verbatim>\<open>github.issues.edit\<close> was sent.\<close>

definition edit_issued :: "outcome \<Rightarrow> bool" where
  "edit_issued out = list_ex is_edit (trace out)"

text \<open>The requests sent and the continuation's invocations, in order.\<close>

definition network_and_continuation :: "outcome \<Rightarrow> event list" where
  "network_and_continuation out = filter (\<lambda>ev. is_ApiCall ev \<or> is_Callback ev) (trace out)"

text \<open>
  A configuration with both sets of credentials, one with the bot's username and password
  only, and one with no credentials.
\<close>

definition example_config :: config where
  "example_config =
     \<lparr>user = ''felixrieseberg'', repo = ''case-studies'',
      botUser = JStr ''case-study-bot'', botPassword = JStr ''hunter2'',
      oauth2key = JStr ''key'', oauth2secret = JStr ''secret'',
      labelNeedsReview = ''needs-review'', labelReviewed = ''reviewed'',
      instructionsComment = ''Thanks for your pull request!'',
      reviewsNeeded = 2\<rparr>"

definition basic_only_config :: config where
  "basic_only_config = example_config\<lparr>oauth2key := JUndefined, oauth2secret := JUndefined\<rparr>"

definition no_credentials_config :: config where
  "no_credentials_config =
     basic_only_config\<lparr>botUser := JUndefined, botPassword := JUndefined\<rparr>"

text \<open>A store whose only array, at address 0, is the caller's.\<close>

definition caller_store :: "string list \<Rightarrow> store" where
  "caller_store xs = \<lparr>cells = (\<lambda>a. if a = 0 then xs else []), nxt = 1\<rparr>"

section \<open>Facts about the library functions\<close>

lemma indexOf_ge: "indexOf xs x \<ge> - 1"
  by (induction xs) (auto simp: Let_def)

lemma indexOf_present: "(indexOf xs x > - 1) = (x \<in> set xs)"
proof (induction xs)
  case Nil
  then show ?case by simp
next
  case (Cons y ys)
  have "indexOf ys x \<ge> - 1" by (rule indexOf_ge)
  with Cons show ?case by (auto simp: Let_def)
qed

lemma indexOf_absent: "(indexOf xs x = - 1) = (x \<notin> set xs)"
  using indexOf_present [of xs x] indexOf_ge [of xs x] by auto

section \<open>\<^verbatim>\<open>updateLabels\<close>\<close>

text \<open>Lines 199-214 by the labels present: which of the four branches runs.\<close>

lemma labelDelta_eq:
  "labelDelta cfg approved a s =
     (if approved then
        (if labelNeedsReview cfg \<in> set (cells s a)
         then Inl (TypeError ''labels.removeAt is not a function'')
         else if labelReviewed cfg \<in> set (cells s a) then Inr (False, s)
         else Inr (True, push s a (labelReviewed cfg)))
      else
        (if labelReviewed cfg \<in> set (cells s a)
         then Inl (TypeError ''labels.removeAt is not a function'')
         else if labelNeedsReview cfg \<in> set (cells s a) then Inr (False, s)
         else Inr (True, push s a (labelNeedsReview cfg))))"
  by (simp add: labelDelta_def indexOf_present indexOf_absent)

text \<open>
  Claim C2. Whenever a removal branch of \<open>updateLabels\<close> runs (approved with the
  needs-review label present, or not approved with the reviewed label present), the call
  of \<^verbatim>\<open>labels.removeAt\<close>, which arrays do not have, ends the call with a TypeError: nothing
  was sent, no continuation is invoked, and the store is as it was.
\<close>

theorem updateLabels_removal_aborts:
  assumes "\<not> falsy prNumber"
    and "(approved \<and> labelNeedsReview cfg \<in> set (cells s a))
         \<or> (\<not> approved \<and> labelReviewed cfg \<in> set (cells s a))"
  shows "updateLabels cfg answer prNumber (JBool approved) (Some a) callback s =
           (\<lparr>trace = [], raised = Some (TypeError ''labels.removeAt is not a function'')\<rparr>, s)"
proof -
  from assms(2) have "cells s a \<noteq> []" by auto
  then have n: "normalize_labels s (Some a) = (a, s)"
    by (simp add: normalize_labels_def)
  from assms(2)
  have d: "labelDelta cfg approved a s = Inl (TypeError ''labels.removeAt is not a function'')"
    by (auto simp: labelDelta_eq)
  show ?thesis
    using assms(1) n d by (cases approved) (simp_all add: updateLabels_def)
qed

theorem updateLabels_removal_aborts_witness:
  "updateLabels example_config (Success ''ok'') (JNum 7) (JBool True) (Some 0) True
       (caller_store [''needs-review'']) =
     (\<lparr>trace = [], raised = Some (TypeError ''labels.removeAt is not a function'')\<rparr>,
      caller_store [''needs-review''])
   \<and> updateLabels example_config (Success ''ok'') (JNum 7) (JBool False) (Some 0) True
       (caller_store [''bug'', ''reviewed'']) =
     (\<lparr>trace = [], raised = Some (TypeError ''labels.removeAt is not a function'')\<rparr>,
      caller_store [''bug'', ''reviewed''])"
  using
    updateLabels_removal_aborts [of "JNum 7" True example_config
      "caller_store [''needs-review'']" 0 "Success ''ok''" True]
    updateLabels_removal_aborts [of "JNum 7" False example_config
      "caller_store [''bug'', ''reviewed'']" 0 "Success ''ok''" True]
  by (simp add: example_config_def caller_store_def)

text \<open>
  Claim C1. With \<open>approved = true\<close> and the labels \<^verbatim>\<open>["needs-review"]\<close>, the claim expects one
  edit request carrying \<^verbatim>\<open>[]\<close>. The code at this input: the first branch calls
  \<^verbatim>\<open>labels.removeAt\<close> and the call ends with a TypeError, with no request sent, no
  continuation invoked and the caller's array still \<^verbatim>\<open>["needs-review"]\<close>.
\<close>

theorem updateLabels_needs_review_only:
  "updateLabels example_config (Success ''edited'') (JNum 7) (JBool True) (Some 0) True
       (caller_store [''needs-review'']) =
     (\<lparr>trace = [], raised = Some (TypeError ''labels.removeAt is not a function'')\<rparr>,
      caller_store [''needs-review''])"
  by (simp add: updateLabels_def normalize_labels_def labelDelta_def caller_store_def
        example_config_def)

text \<open>
  When lines 199-214 run to the end (no removal branch), running them again on the
  resulting array changes nothing, provided the two configured label names differ.
\<close>

lemma labelDelta_settles:
  assumes "labelNeedsReview cfg \<noteq> labelReviewed cfg"
    and "labelDelta cfg approved a s = Inr (changed, s')"
  shows "labelDelta cfg approved a s' = Inr (False, s')"
  using assms by (auto simp: labelDelta_eq push_def split: if_splits)

text \<open>
  Claim C3. The claim expects that an application which removes a label is followed by
  one that adds the opposite label and a third with an empty delta. The code at the
  labels \<^verbatim>\<open>["needs-review"]\<close> with \<open>approved = true\<close>: the first application of the delta
  computation does not yield a label list at all, it ends with a TypeError at
  \<^verbatim>\<open>labels.removeAt\<close>, so there is no second application.
\<close>

theorem labelDelta_needs_review_only:
  "labelDelta example_config True 0 (caller_store [''needs-review'']) =
     Inl (TypeError ''labels.removeAt is not a function'')"
  by (simp add: labelDelta_def caller_store_def example_config_def)

text \<open>
  Claim C4 as stated fails: with no credentials configured, \<open>approved = true\<close> and no
  labels, the reviewed label is pushed and \<open>changed\<close> is set, but \<^verbatim>\<open>_authenticate\<close> throws
  before \<^verbatim>\<open>github.issues.edit\<close> is called.
\<close>

theorem edit_iff_changed_counterexample:
  "\<not> (edit_issued (fst (updateLabels no_credentials_config (Success ''edited'') (JNum 7)
                          (JBool True) None True (caller_store [])))
       = updateLabels_changed no_credentials_config (JNum 7) (JBool True) None
           (caller_store []))"
  by (simp add: updateLabels_def updateLabels_changed_def normalize_labels_def alloc_empty_def
        labelDelta_def push_def caller_store_def no_credentials_config_def
        basic_only_config_def example_config_def priv_authenticate_def edit_issued_def)

text \<open>
  Claim C4, amended. For every call of \<open>updateLabels\<close>, an edit request is sent if and
  only if \<open>changed\<close> was set by some branch and \<^verbatim>\<open>_authenticate\<close> did not throw. In
  particular, with \<open>approved = true\<close> and the reviewed label as the only label, no request
  is sent and no continuation is invoked.
\<close>

theorem edit_iff_changed_and_authenticated:
  "edit_issued (fst (updateLabels cfg answer prNumber approved labels callback s))
     = (updateLabels_changed cfg prNumber approved labels s \<and> \<not> isl (priv_authenticate cfg))
   \<and> (cells s a = [labelReviewed cfg] \<longrightarrow>
        network_and_continuation
          (fst (updateLabels cfg answer prNumber (JBool True) (Some a) callback s)) = [])"
proof
  show "edit_issued (fst (updateLabels cfg answer prNumber approved labels callback s))
     = (updateLabels_changed cfg prNumber approved labels s \<and> \<not> isl (priv_authenticate cfg))"
    by (auto simp: updateLabels_def updateLabels_changed_def edit_issued_def
          split: prod.splits sum.splits reply.splits)
next
  show "cells s a = [labelReviewed cfg] \<longrightarrow>
        network_and_continuation
          (fst (updateLabels cfg answer prNumber (JBool True) (Some a) callback s)) = []"
    by (auto simp: updateLabels_def normalize_labels_def labelDelta_eq
          network_and_continuation_def)
qed

theorem edit_iff_changed_and_authenticated_witness:
  "edit_issued (fst (updateLabels example_config (Success ''edited'') (JNum 7) (JBool True)
                       (Some 0) True (caller_store [''reviewed''])))
     = (updateLabels_changed example_config (JNum 7) (JBool True) (Some 0)
          (caller_store [''reviewed'']) \<and> \<not> isl (priv_authenticate example_config))
   \<and> cells (caller_store [''reviewed'']) 0 = [labelReviewed example_config]
   \<and> network_and_continuation
        (fst (updateLabels example_config (Success ''edited'') (JNum 7) (JBool True) (Some 0)
                True (caller_store [''reviewed'']))) = []"
  using edit_iff_changed_and_authenticated [of example_config "Success ''edited''" "JNum 7"
      "JBool True" "Some 0" True "caller_store [''reviewed'']" 0]
  by (simp add: example_config_def caller_store_def)

text \<open>
  Claim C8. \<open>updateLabels\<close> ends at once, with the diagnostic as its only effect (no
  request, no continuation, nothing raised), whenever \<open>approved\<close> is not one of the two
  booleans or the PR number is falsy. An absent or empty labels argument is not rejected
  by that check: the function goes on with a new empty array, so with a PR number and a
  boolean \<open>approved\<close> it authenticates and submits the one label it added to the empty
  list (unless \<^verbatim>\<open>_authenticate\<close> throws).
\<close>

theorem updateLabels_parameter_check:
  "((\<forall>b. approved \<noteq> JBool b) \<or> falsy prNumber \<longrightarrow>
      fst (updateLabels cfg answer prNumber approved labels callback s) =
        \<lparr>trace = [Debug ''labelPullRequest: insufficient parameters''], raised = None\<rparr>)
   \<and> (\<not> falsy prNumber \<and> (labels = None \<or> (labels = Some a \<and> cells s a = [])) \<longrightarrow>
        cells (snd (normalize_labels s labels)) (fst (normalize_labels s labels)) = []
        \<and> fst (updateLabels cfg answer prNumber (JBool b') labels callback s) =
            (case priv_authenticate cfg of
               Inl e \<Rightarrow> \<lparr>trace = [], raised = Some e\<rparr>
             | Inr credentials \<Rightarrow>
                 \<lparr>trace =
                    [Authenticate credentials,
                     ApiCall (Issues_edit (user cfg) (repo cfg) prNumber
                        (JSON_stringify [if b' then labelReviewed cfg else labelNeedsReview cfg]))]
                    @ (case answer of
                         Failure e \<Rightarrow>
                           [DebugErr ''labelPullRequest: error while trying to label PR: '' e]
                       | Success result \<Rightarrow> if callback then [Callback (Result result)] else []),
                  raised = None\<rparr>))"
proof (intro conjI impI)
  assume "(\<forall>b. approved \<noteq> JBool b) \<or> falsy prNumber"
  then have "(approved \<noteq> JBool True \<and> approved \<noteq> JBool False) \<or> falsy prNumber"
    by auto
  then show "fst (updateLabels cfg answer prNumber approved labels callback s) =
        \<lparr>trace = [Debug ''labelPullRequest: insufficient parameters''], raised = None\<rparr>"
    by (simp add: updateLabels_def split: prod.splits)
next
  assume h: "\<not> falsy prNumber \<and> (labels = None \<or> (labels = Some a \<and> cells s a = []))"
  then have n: "normalize_labels s labels = alloc_empty s"
    by (auto simp: normalize_labels_def)
  show "cells (snd (normalize_labels s labels)) (fst (normalize_labels s labels)) = []"
    by (simp add: n alloc_empty_def)
  show "fst (updateLabels cfg answer prNumber (JBool b') labels callback s) =
            (case priv_authenticate cfg of
               Inl e \<Rightarrow> \<lparr>trace = [], raised = Some e\<rparr>
             | Inr credentials \<Rightarrow>
                 \<lparr>trace =
                    [Authenticate credentials,
                     ApiCall (Issues_edit (user cfg) (repo cfg) prNumber
                        (JSON_stringify [if b' then labelReviewed cfg else labelNeedsReview cfg]))]
                    @ (case answer of
                         Failure e \<Rightarrow>
                           [DebugErr ''labelPullRequest: error while trying to label PR: '' e]
                       | Success result \<Rightarrow> if callback then [Callback (Result result)] else []),
                  raised = None\<rparr>)"
    using h
    by (cases b') (simp_all add: updateLabels_def n alloc_empty_def labelDelta_eq push_def
          split: sum.splits)
qed

theorem updateLabels_parameter_check_witness:
  "fst (updateLabels example_config (Success ''edited'') (JNum 7) (JStr ''true'') (Some 0) True
          (caller_store [''bug''])) =
     \<lparr>trace = [Debug ''labelPullRequest: insufficient parameters''], raised = None\<rparr>
   \<and> fst (updateLabels example_config (Success ''edited'') JUndefined (JBool True) None True
          (caller_store [''bug''])) =
     \<lparr>trace = [Debug ''labelPullRequest: insufficient parameters''], raised = None\<rparr>
   \<and> fst (updateLabels example_config (Success ''edited'') (JNum 7) (JBool True) None True
          (caller_store [''bug''])) =
     \<lparr>trace =
        [Authenticate (OAuth (JStr ''key'') (JStr ''secret'')),
         ApiCall (Issues_edit ''felixrieseberg'' ''case-studies'' (JNum 7)
                    (JSON_stringify [''reviewed''])),
         Callback (Result ''edited'')],
      raised = None\<rparr>
   \<and> fst (updateLabels example_config (Success ''edited'') (JNum 7) (JBool False) (Some 0) True
          (caller_store [])) =
     \<lparr>trace =
        [Authenticate (OAuth (JStr ''key'') (JStr ''secret'')),
         ApiCall (Issues_edit ''felixrieseberg'' ''case-studies'' (JNum 7)
                    (JSON_stringify [''needs-review''])),
         Callback (Result ''edited'')],
      raised = None\<rparr>"
  using
    updateLabels_parameter_check [of "JStr ''true''" "JNum 7" example_config
      "Success ''edited''" "Some 0" True "caller_store [''bug'']" 0 True]
    updateLabels_parameter_check [of "JBool True" JUndefined example_config
      "Success ''edited''" None True "caller_store [''bug'']" 0 True]
    updateLabels_parameter_check [of "JBool True" "JNum 7" example_config
      "Success ''edited''" None True "caller_store [''bug'']" 0 True]
    updateLabels_parameter_check [of "JBool False" "JNum 7" example_config
      "Success ''edited''" "Some 0" True "caller_store []" 0 False]
  by (simp add: example_config_def caller_store_def priv_authenticate_def)

text \<open>
  Claim C10 as stated fails: when the caller's array is empty, line 193 replaces it by a
  new array, the label is pushed onto the new one, and after a call that set \<open>changed\<close>
  the caller's own array is what it was.
\<close>

theorem caller_array_counterexample:
  "updateLabels_changed example_config (JNum 7) (JBool True) (Some 0) (caller_store [])
   \<and> cells (snd (updateLabels example_config (Success ''edited'') (JNum 7) (JBool True)
                  (Some 0) True (caller_store []))) 0 = cells (caller_store []) 0"
  by (simp add: updateLabels_def updateLabels_changed_def normalize_labels_def alloc_empty_def
        labelDelta_def push_def caller_store_def example_config_def priv_authenticate_def)

text \<open>
  Claim C10, amended. When the caller passes a non-empty array that holds neither
  configured label, \<open>updateLabels\<close> pushes the label to add onto the caller's own array, in
  place and changing nothing else in the store, and the one request it sends (when
  \<^verbatim>\<open>_authenticate\<close> does not throw) carries the JSON text of that same array. When the
  labels argument is absent or an empty array, every array the caller holds is left as
  it was.
\<close>

theorem updateLabels_pushes_in_place:
  "(\<not> falsy prNumber \<and> cells s a \<noteq> []
      \<and> labelNeedsReview cfg \<notin> set (cells s a) \<and> labelReviewed cfg \<notin> set (cells s a) \<longrightarrow>
      snd (updateLabels cfg answer prNumber (JBool b) (Some a) callback s) =
        push s a (if b then labelReviewed cfg else labelNeedsReview cfg)
      \<and> (\<forall>credentials. priv_authenticate cfg = Inr credentials \<longrightarrow>
           filter is_ApiCall
             (trace (fst (updateLabels cfg answer prNumber (JBool b) (Some a) callback s))) =
           [ApiCall (Issues_edit (user cfg) (repo cfg) prNumber
              (JSON_stringify
                 (cells (snd (updateLabels cfg answer prNumber (JBool b) (Some a) callback s))
                    a)))]))
   \<and> ((labels = None \<or> (labels = Some a \<and> cells s a = [])) \<and> a' < nxt s \<longrightarrow>
        cells (snd (updateLabels cfg answer prNumber approved labels callback s)) a'
          = cells s a')"
proof (intro conjI impI allI)
  assume h: "\<not> falsy prNumber \<and> cells s a \<noteq> []
      \<and> labelNeedsReview cfg \<notin> set (cells s a) \<and> labelReviewed cfg \<notin> set (cells s a)"
  then have n: "normalize_labels s (Some a) = (a, s)"
    by (simp add: normalize_labels_def)
  from h have d: "labelDelta cfg b a s =
      Inr (True, push s a (if b then labelReviewed cfg else labelNeedsReview cfg))"
    by (simp add: labelDelta_eq)
  show r: "snd (updateLabels cfg answer prNumber (JBool b) (Some a) callback s) =
        push s a (if b then labelReviewed cfg else labelNeedsReview cfg)"
    using h n d by (cases b) (simp_all add: updateLabels_def split: sum.splits)
  fix credentials
  assume "priv_authenticate cfg = Inr credentials"
  then show "filter is_ApiCall
             (trace (fst (updateLabels cfg answer prNumber (JBool b) (Some a) callback s))) =
           [ApiCall (Issues_edit (user cfg) (repo cfg) prNumber
              (JSON_stringify
                 (cells (snd (updateLabels cfg answer prNumber (JBool b) (Some a) callback s))
                    a)))]"
    unfolding r using h n d
    by (cases b) (simp_all add: updateLabels_def split: reply.splits)
next
  assume h: "(labels = None \<or> (labels = Some a \<and> cells s a = [])) \<and> a' < nxt s"
  then have n: "normalize_labels s labels = alloc_empty s"
    by (auto simp: normalize_labels_def)
  from h have ne: "a' \<noteq> nxt s" by simp
  show "cells (snd (updateLabels cfg answer prNumber approved labels callback s)) a'
          = cells s a'"
    using ne
    by (auto simp: updateLabels_def n alloc_empty_def labelDelta_eq push_def
          split: sum.splits prod.splits)
qed

theorem updateLabels_pushes_in_place_witness:
  "cells (snd (updateLabels example_config (Success ''edited'') (JNum 7) (JBool True) (Some 0)
                 True (caller_store [''bug'']))) 0 = [''bug'', ''reviewed'']
   \<and> filter is_ApiCall
        (trace (fst (updateLabels example_config (Success ''edited'') (JNum 7) (JBool True)
                       (Some 0) True (caller_store [''bug''])))) =
      [ApiCall (Issues_edit ''felixrieseberg'' ''case-studies'' (JNum 7)
                  (JSON_stringify [''bug'', ''reviewed'']))]
   \<and> cells (snd (updateLabels example_config (Success ''edited'') (JNum 7) (JBool False)
                   (Some 0) True (caller_store []))) 0 = []"
  using
    updateLabels_pushes_in_place [of "JNum 7" "caller_store [''bug'']" 0 example_config
      "Success ''edited''" True True None 0 "JBool True"]
    updateLabels_pushes_in_place [of "JNum 7" "caller_store []" 0 example_config
      "Success ''edited''" False True "Some 0" 0 "JBool False"]
  by (simp add: example_config_def caller_store_def priv_authenticate_def push_def)

section \<open>\<^verbatim>\<open>_authenticate\<close>\<close>

text \<open>
  The check of line 11 lets a configuration pass only when all four credentials are
  set, and then line 15 always takes the OAuth2 branch: the basic branch never runs.
\<close>

lemma priv_authenticate_eq:
  "priv_authenticate cfg =
     (if falsy (botUser cfg) \<or> falsy (botPassword cfg) \<or> falsy (oauth2key cfg)
         \<or> falsy (oauth2secret cfg)
      then Inl (Error ''Fatal: No username/password or no Oauth2 key/secret configured!'')
      else Inr (OAuth (oauth2key cfg) (oauth2secret cfg)))"
  by (simp add: priv_authenticate_def)

text \<open>
  Claim C7. The claim expects either set of credentials alone to suffice. The code with
  the bot's username and password configured and no OAuth2 key and secret: the check of
  line 11 throws, and \<^verbatim>\<open>github.authenticate\<close> is not called with the basic credentials.
\<close>

theorem priv_authenticate_basic_only:
  "priv_authenticate basic_only_config =
     Inl (Error ''Fatal: No username/password or no Oauth2 key/secret configured!'')"
  by (simp add: priv_authenticate_def basic_only_config_def example_config_def)

section \<open>\<^verbatim>\<open>checkForApprovalComments\<close>\<close>

lemma starts_with_iff: "starts_with p s = (\<exists>r. s = p @ r)"
  by (induction p s rule: starts_with.induct) auto

lemma lgtm_test_split: "lgtm_test s = (\<exists>p q. s = p @ q \<and> lgtm_at q)"
proof (induction s)
  case Nil
  then show ?case by simp
next
  case (Cons c cs)
  show ?case
  proof
    assume "lgtm_test (c # cs)"
    then consider "lgtm_at (c # cs)" | "lgtm_test cs" by auto
    then show "\<exists>p q. c # cs = p @ q \<and> lgtm_at q"
    proof cases
      case 1
      then have "c # cs = [] @ (c # cs) \<and> lgtm_at (c # cs)" by simp
      then show ?thesis by blast
    next
      case 2
      with Cons obtain p q where "cs = p @ q" "lgtm_at q" by auto
      then have "c # cs = (c # p) @ q \<and> lgtm_at q" by simp
      then show ?thesis by blast
    qed
  next
    assume "\<exists>p q. c # cs = p @ q \<and> lgtm_at q"
    then obtain p q where pq: "c # cs = p @ q" "lgtm_at q" by auto
    show "lgtm_test (c # cs)"
    proof (cases p)
      case Nil
      with pq have "lgtm_at (c # cs)" by simp
      then show ?thesis by simp
    next
      case (Cons d p')
      with pq have "cs = p' @ q" by simp
      with pq(2) Cons.IH have "lgtm_test cs" by auto
      then show ?thesis by simp
    qed
  qed
qed

text \<open>
  The pattern matches the bodies that contain \<^verbatim>\<open>LGTM\<close>, \<^verbatim>\<open>Looks good to me!\<close> or a
  letter w.
\<close>

lemma lgtm_test_iff:
  "lgtm_test s =
     ((\<exists>p r. s = p @ ''LGTM'' @ r) \<or> (\<exists>p r. s = p @ ''Looks good to me!'' @ r)
      \<or> (\<exists>p r. s = p @ ''w'' @ r))"
  unfolding lgtm_test_split lgtm_at_def starts_with_iff by blast

lemma count_approvals_eq:
  "count_approvals cs n =
     n + int (length (filter (\<lambda>c. body c \<noteq> [] \<and> lgtm_test (body c)) cs))"
  by (induction cs arbitrary: n) simp_all

text \<open>
  Claim C6. Given a PR number and fetched comments, \<open>checkForApprovalComments\<close> invokes
  its callback with \<open>approved\<close> = (the number of comments whose body is non-empty and
  matches the approval pattern is at least \<open>reviewsNeeded\<close>), where a body matches the
  pattern when it contains \<^verbatim>\<open>LGTM\<close>, \<^verbatim>\<open>Looks good to me!\<close> or a letter w; empty and
  non-matching bodies do not count. With \<open>reviewsNeeded = 2\<close>, the bodies
  \<^verbatim>\<open>["LGTM", "not helpful", "Looks good to me!"]\<close> give \<open>true\<close> and \<^verbatim>\<open>["LGTM"]\<close> gives \<open>false\<close>;
  with \<open>reviewsNeeded = 3\<close> the three bodies give \<open>false\<close>, since \<^verbatim>\<open>"not helpful"\<close> is not
  counted.
\<close>

theorem checkForApprovalComments_counts:
  "(\<not> falsy prNumber \<longrightarrow>
      checkForApprovalComments cfg (Success cs) prNumber True =
        \<lparr>trace =
           [ApiCall (Issues_getComments (user cfg) (repo cfg) prNumber (Some 99)),
            Callback (Flag (reviewsNeeded cfg
               \<le> int (length (filter
                     (\<lambda>c. body c \<noteq> []
                        \<and> ((\<exists>p r. body c = p @ ''LGTM'' @ r)
                           \<or> (\<exists>p r. body c = p @ ''Looks good to me!'' @ r)
                           \<or> (\<exists>p r. body c = p @ ''w'' @ r))) cs))))],
         raised = None\<rparr>)
   \<and> (\<not> falsy prNumber \<and> reviewsNeeded cfg = 2 \<longrightarrow>
        checkForApprovalComments cfg
          (Success [\<lparr>body = ''LGTM''\<rparr>, \<lparr>body = ''not helpful''\<rparr>,
                    \<lparr>body = ''Looks good to me!''\<rparr>]) prNumber True =
          \<lparr>trace =
             [ApiCall (Issues_getComments (user cfg) (repo cfg) prNumber (Some 99)),
              Callback (Flag True)],
           raised = None\<rparr>
        \<and> checkForApprovalComments cfg (Success [\<lparr>body = ''LGTM''\<rparr>]) prNumber True =
          \<lparr>trace =
             [ApiCall (Issues_getComments (user cfg) (repo cfg) prNumber (Some 99)),
              Callback (Flag False)],
           raised = None\<rparr>)
   \<and> (\<not> falsy prNumber \<and> reviewsNeeded cfg = 3 \<longrightarrow>
        checkForApprovalComments cfg
          (Success [\<lparr>body = ''LGTM''\<rparr>, \<lparr>body = ''not helpful''\<rparr>,
                    \<lparr>body = ''Looks good to me!''\<rparr>]) prNumber True =
          \<lparr>trace =
             [ApiCall (Issues_getComments (user cfg) (repo cfg) prNumber (Some 99)),
              Callback (Flag False)],
           raised = None\<rparr>
        \<and> checkForApprovalComments cfg
          (Success [\<lparr>body = ''LGTM''\<rparr>, \<lparr>body = []\<rparr>, \<lparr>body = ''Looks good to me!''\<rparr>])
          prNumber True =
          \<lparr>trace =
             [ApiCall (Issues_getComments (user cfg) (repo cfg) prNumber (Some 99)),
              Callback (Flag False)],
           raised = None\<rparr>)"
proof (intro conjI impI)
  assume "\<not> falsy prNumber"
  then show "checkForApprovalComments cfg (Success cs) prNumber True =
        \<lparr>trace =
           [ApiCall (Issues_getComments (user cfg) (repo cfg) prNumber (Some 99)),
            Callback (Flag (reviewsNeeded cfg
               \<le> int (length (filter
                     (\<lambda>c. body c \<noteq> []
                        \<and> ((\<exists>p r. body c = p @ ''LGTM'' @ r)
                           \<or> (\<exists>p r. body c = p @ ''Looks good to me!'' @ r)
                           \<or> (\<exists>p r. body c = p @ ''w'' @ r))) cs))))],
         raised = None\<rparr>"
    unfolding lgtm_test_iff [symmetric]
    by (simp add: checkForApprovalComments_def count_approvals_eq)
next
  assume h: "\<not> falsy prNumber \<and> reviewsNeeded cfg = 2"
  show "checkForApprovalComments cfg
          (Success [\<lparr>body = ''LGTM''\<rparr>, \<lparr>body = ''not helpful''\<rparr>,
                    \<lparr>body = ''Looks good to me!''\<rparr>]) prNumber True =
          \<lparr>trace =
             [ApiCall (Issues_getComments (user cfg) (repo cfg) prNumber (Some 99)),
              Callback (Flag True)],
           raised = None\<rparr>"
    using h by (simp add: checkForApprovalComments_def lgtm_at_def)
  show "checkForApprovalComments cfg (Success [\<lparr>body = ''LGTM''\<rparr>]) prNumber True =
          \<lparr>trace =
             [ApiCall (Issues_getComments (user cfg) (repo cfg) prNumber (Some 99)),
              Callback (Flag False)],
           raised = None\<rparr>"
    using h by (simp add: checkForApprovalComments_def lgtm_at_def)
next
  assume h: "\<not> falsy prNumber \<and> reviewsNeeded cfg = 3"
  show "checkForApprovalComments cfg
          (Success [\<lparr>body = ''LGTM''\<rparr>, \<lparr>body = ''not helpful''\<rparr>,
                    \<lparr>body = ''Looks good to me!''\<rparr>]) prNumber True =
          \<lparr>trace =
             [ApiCall (Issues_getComments (user cfg) (repo cfg) prNumber (Some 99)),
              Callback (Flag False)],
           raised = None\<rparr>"
    using h by (simp add: checkForApprovalComments_def lgtm_at_def)
  show "checkForApprovalComments cfg
          (Success [\<lparr>body = ''LGTM''\<rparr>, \<lparr>body = []\<rparr>, \<lparr>body = ''Looks good to me!''\<rparr>])
          prNumber True =
          \<lparr>trace =
             [ApiCall (Issues_getComments (user cfg) (repo cfg) prNumber (Some 99)),
              Callback (Flag False)],
           raised = None\<rparr>"
    using h by (simp add: checkForApprovalComments_def lgtm_at_def)
qed

theorem checkForApprovalComments_counts_witness:
  "checkForApprovalComments example_config
     (Success [\<lparr>body = ''LGTM''\<rparr>, \<lparr>body = []\<rparr>, \<lparr>body = ''wow''\<rparr>, \<lparr>body = ''no''\<rparr>])
     (JNum 7) True =
     \<lparr>trace =
        [ApiCall (Issues_getComments ''felixrieseberg'' ''case-studies'' (JNum 7) (Some 99)),
         Callback (Flag True)],
      raised = None\<rparr>
   \<and> checkForApprovalComments example_config (Success [\<lparr>body = ''LGTM''\<rparr>]) (JNum 7) True =
     \<lparr>trace =
        [ApiCall (Issues_getComments ''felixrieseberg'' ''case-studies'' (JNum 7) (Some 99)),
         Callback (Flag False)],
      raised = None\<rparr>
   \<and> checkForApprovalComments example_config
       (Success [\<lparr>body = ''LGTM''\<rparr>, \<lparr>body = ''not helpful''\<rparr>]) (JNum 7) True =
     \<lparr>trace =
        [ApiCall (Issues_getComments ''felixrieseberg'' ''case-studies'' (JNum 7) (Some 99)),
         Callback (Flag False)],
      raised = None\<rparr>
   \<and> checkForApprovalComments (example_config\<lparr>reviewsNeeded := 3\<rparr>)
       (Success [\<lparr>body = ''LGTM''\<rparr>, \<lparr>body = ''not helpful''\<rparr>,
                 \<lparr>body = ''Looks good to me!''\<rparr>]) (JNum 7) True =
     \<lparr>trace =
        [ApiCall (Issues_getComments ''felixrieseberg'' ''case-studies'' (JNum 7) (Some 99)),
         Callback (Flag False)],
      raised = None\<rparr>"
  using
    checkForApprovalComments_counts [of "JNum 7" example_config
      "[\<lparr>body = ''LGTM''\<rparr>, \<lparr>body = []\<rparr>, \<lparr>body = ''wow''\<rparr>, \<lparr>body = ''no''\<rparr>]"]
    checkForApprovalComments_counts [of "JNum 7" "example_config\<lparr>reviewsNeeded := 3\<rparr>"
      "[\<lparr>body = ''LGTM''\<rparr>, \<lparr>body = ''not helpful''\<rparr>]"]
  by (simp add: example_config_def checkForApprovalComments_def lgtm_at_def)

section \<open>\<^verbatim>\<open>checkForInstructionsComment\<close>\<close>

lemma scan_instructions_fst:
  "fst (scan_instructions t cs i False) =
     (\<exists>c \<in> set cs. trim (slice 1 30 (body c)) = trim (slice 1 30 t))"
  by (induction cs arbitrary: i) (auto simp: Let_def)

lemma scan_instructions_snd:
  "snd (scan_instructions t cs i False) =
     i + length (takeWhile (\<lambda>c. trim (slice 1 30 (body c)) \<noteq> trim (slice 1 30 t)) cs)"
  by (induction cs arbitrary: i) (auto simp: Let_def)

text \<open>
  Claim C5 as stated fails: \<^verbatim>\<open>slice(1, 30)\<close> leaves out the first character, so a comment
  that differs from the template in its first character only is taken for the
  instructions, although the trimmed first 30 characters of the two differ.
\<close>

theorem instructions_prefix_counterexample:
  "trace (checkForInstructionsComment example_config
            (Success [\<lparr>body = ''thanks for your pull request!''\<rparr>]) (JNum 7) True) =
     [ApiCall (Issues_getComments ''felixrieseberg'' ''case-studies'' (JNum 7) None),
      Callback (Flag True)]
   \<and> trim (take 30 ''thanks for your pull request!'')
       \<noteq> trim (take 30 (instructionsComment example_config))"
  by (simp add: checkForInstructionsComment_def example_config_def slice_def trim_def
        is_space_def)

text \<open>
  Claim C5, amended. When the comments are fetched, \<open>checkForInstructionsComment\<close>
  invokes its callback with \<open>true\<close> exactly when, for some comment, the characters at
  positions 1 to 29 of its body (\<^verbatim>\<open>slice(1, 30)\<close>: the first character is left out),
  trimmed, equal the same part of the configured template, trimmed, and with \<open>false\<close>
  when no comment matches; the scan stops at the first match. When the fetch fails it
  logs only, and no callback occurs.
\<close>

theorem checkForInstructionsComment_slice:
  "checkForInstructionsComment cfg (Success cs) prNumber True =
     \<lparr>trace =
        [ApiCall (Issues_getComments (user cfg) (repo cfg) prNumber None),
         Callback (Flag (\<exists>c \<in> set cs.
            trim (slice 1 30 (body c)) = trim (slice 1 30 (instructionsComment cfg))))],
      raised = None\<rparr>
   \<and> snd (scan_instructions (instructionsComment cfg) cs 0 False) =
       length (takeWhile
         (\<lambda>c. trim (slice 1 30 (body c)) \<noteq> trim (slice 1 30 (instructionsComment cfg))) cs)
   \<and> checkForInstructionsComment cfg (Failure e) prNumber callback =
       \<lparr>trace =
          [ApiCall (Issues_getComments (user cfg) (repo cfg) prNumber None),
           DebugErr ''commentInstructions: error while trying fetch comments: '' e],
        raised = None\<rparr>"
  by (simp add: checkForInstructionsComment_def scan_instructions_fst scan_instructions_snd)

theorem checkForInstructionsComment_slice_witness:
  "checkForInstructionsComment example_config
     (Success [\<lparr>body = ''LGTM''\<rparr>, \<lparr>body = ''Thanks for your pull request! Please sign.''\<rparr>,
               \<lparr>body = ''Thanks for your pull request!''\<rparr>])
     (JNum 7) True =
     \<lparr>trace =
        [ApiCall (Issues_getComments ''felixrieseberg'' ''case-studies'' (JNum 7) None),
         Callback (Flag True)],
      raised = None\<rparr>
   \<and> snd (scan_instructions (instructionsComment example_config)
          [\<lparr>body = ''LGTM''\<rparr>, \<lparr>body = ''Thanks for your pull request! Please sign.''\<rparr>,
           \<lparr>body = ''Thanks for your pull request!''\<rparr>] 0 False) = 1"
  using checkForInstructionsComment_slice [of example_config
      "[\<lparr>body = ''LGTM''\<rparr>, \<lparr>body = ''Thanks for your pull request! Please sign.''\<rparr>,
        \<lparr>body = ''Thanks for your pull request!''\<rparr>]" "JNum 7"]
  by (simp add: example_config_def slice_def trim_def is_space_def)

section \<open>\<^verbatim>\<open>merge\<close>\<close>

text \<open>
  Claim C9. The claim expects \<open>merge\<close> to invoke the forge's merge operation and to hand
  the result to the continuation. The code, for every configuration and PR number: the
  call ends with an exception (from \<^verbatim>\<open>_authenticate\<close>, or from calling
  \<^verbatim>\<open>github.pullRequests\<close>, which is not a function), no request is sent and the
  continuation is not invoked.
\<close>

theorem merge_sends_nothing:
  "raised (merge cfg prNumber callback) \<noteq> None
   \<and> network_and_continuation (merge cfg prNumber callback) = []"
  by (simp add: merge_def network_and_continuation_def split: sum.splits)

end
